theory Spec2Isabelle
  imports Complex_Main "HOL-Library.Signed_Division"
begin

section \<open>Tensors and device contexts\<close>

text \<open>
  The orchestrator \<open>MultiHeadedAttention::operator()\<close> of
  \<open>turbo_transformers/layers/multi_headed_attention.cpp\<close> is embedded as a function on an
  explicit store of tensor objects. The tensor class, the scratch arena and the numeric
  kernels live in other files of the library; they are modelled from the interface the
  orchestrator consumes.
\<close>

datatype DLDeviceType = kDLCPU | kDLGPU

type_synonym DLContext = "DLDeviceType \<times> int"

text \<open>
  Modelled from the spec: the class \<open>core::Tensor\<close> (data model, "Tensor"): a typed buffer
  with a shape (ordered sequence of dimension sizes), a device type and a device id. The
  buffer contents are kept abstract (type \<open>'d\<close>): the orchestrator never looks inside.
\<close>

record 'd Tensor =
  dims :: "int list"
  device_ctx :: DLContext
  data :: 'd

definition n_dim :: "'d Tensor \<Rightarrow> int" where
  "n_dim t = int (length (dims t))"

definition shape :: "'d Tensor \<Rightarrow> nat \<Rightarrow> int" where
  "shape t i = dims t ! i"

definition device_type :: "'d Tensor \<Rightarrow> DLDeviceType" where
  "device_type t = fst (device_ctx t)"

definition device_id :: "'d Tensor \<Rightarrow> int" where
  "device_id t = snd (device_ctx t)"

text \<open>
  Modelled from the spec: \<open>kernels::common::is_same_device_ctx\<close>; the message of the check
  that uses it says "the same device type and device id".
\<close>

definition is_same_device_ctx :: "DLContext \<Rightarrow> DLContext \<Rightarrow> bool" where
  "is_same_device_ctx a b \<longleftrightarrow> fst a = fst b \<and> snd a = snd b"

section \<open>The store\<close>

text \<open>
  Every \<open>static core::TempTensor\<close> of the function is one slot of the scratch arena; a slot
  holds one cached tensor for each device context (\<open>GetTensor(ctx)\<close>).
\<close>

datatype slot =
    q_out1_temp | v_out1_temp | k_out1_temp
  | q_out2_temp | v_out2_temp | k_out2_temp
  | qkv_out1_temp | qkv_out2_temp
  | att_score_tmp | context_layer_tmpr | self_attr_out_tmp

text \<open>The tensor members of the \<open>MultiHeadedAttention\<close> object (trailing underscores dropped).\<close>

datatype member =
    k_weight | k_bias | v_weight | v_bias | q_weight | q_bias
  | dense_weight | dense_bias | qkv_weight | qkv_bias
  | layernorm_gamma | layernorm_beta

text \<open>
  The tensor objects the function can name: the caller's objects, the members, the arena's
  cached tensors, the local \<open>layernormed_query\<close> of the self branch, and the three
  objects that branch allocates with \<open>new\<close>.
\<close>

type_synonym obj = nat

datatype loc =
    Caller obj
  | Member member
  | Temp slot DLContext
  | layernormed_query
  | new_q | new_k | new_v

text \<open>
  The arguments of a call: the objects behind the four \<open>const core::Tensor&\<close> parameters
  and behind the pointer \<open>output\<close>. Nothing in the signature keeps two of them apart: the
  caller may pass one object for several parameters, the output included. Two different
  objects are taken to own different buffers. The members are private to the
  \<open>MultiHeadedAttention\<close> object and the arena's tensors are static locals of the function:
  no parameter designates one of them.
\<close>

record call =
  key_obj :: obj
  value_obj :: obj
  query_obj :: obj
  mask_obj :: obj
  output_obj :: obj

abbreviation key_tensor :: "call \<Rightarrow> loc" where
  "key_tensor a \<equiv> Caller (key_obj a)"

abbreviation value_tensor :: "call \<Rightarrow> loc" where
  "value_tensor a \<equiv> Caller (value_obj a)"

abbreviation query_tensor :: "call \<Rightarrow> loc" where
  "query_tensor a \<equiv> Caller (query_obj a)"

abbreviation attention_mask :: "call \<Rightarrow> loc" where
  "attention_mask a \<equiv> Caller (mask_obj a)"

abbreviation output_tensor :: "call \<Rightarrow> loc" where
  "output_tensor a \<equiv> Caller (output_obj a)"

type_synonym 'd store = "loc \<Rightarrow> 'd Tensor"

section \<open>Errors and sequencing\<close>

text \<open>
  \<open>TT_ENFORCE_EQ\<close> and \<open>TT_THROW\<close> throw; a throw is the value \<open>Inl (e, s)\<close>, with the
  store \<open>s\<close> as it is when the exception leaves the function. The classes are those of the
  specification's taxonomy, the messages those of the source. \<open>ArithmeticFault\<close> is the
  integer division by zero of \<open>hidden_size / num_attention_heads_\<close>.
\<close>

datatype error_class = ShapeError | DeviceMismatchError | InvalidArgument | ArithmeticFault

type_synonym error = "error_class \<times> string"

type_synonym 'd outcome = "(error \<times> 'd store) + 'd store"

fun steps :: "('s \<Rightarrow> (error \<times> 's) + 's) list \<Rightarrow> 's \<Rightarrow> (error \<times> 's) + 's" where
  "steps [] s = Inr s"
| "steps (m # ms) s = (case m s of Inl x \<Rightarrow> Inl x | Inr s' \<Rightarrow> steps ms s')"

definition TT_ENFORCE_EQ :: "'a \<Rightarrow> 'a \<Rightarrow> error \<Rightarrow> 'd store \<Rightarrow> 'd outcome" where
  "TT_ENFORCE_EQ a b e s = (if a = b then Inr s else Inl (e, s))"

text \<open>
  Modelled from the spec: \<open>Tensor::Reshape\<close> (component design, "Tensor and DeviceContext"):
  fails with \<open>ShapeError\<close> if the shape contains a non-positive dimension; otherwise
  the tensor takes the shape and the device, the storage is reused or reallocated and no
  prior contents are copied (the buffer field is left as it was: stale contents).
\<close>

definition Reshape :: "loc \<Rightarrow> int list \<Rightarrow> DLDeviceType \<Rightarrow> int \<Rightarrow> 'd store \<Rightarrow> 'd outcome" where
  "Reshape l shp devtype devid s =
     (if list_all (\<lambda>d. 0 < d) shp
      then Inr (s(l := \<lparr>dims = shp, device_ctx = (devtype, devid), data = data (s l)\<rparr>))
      else Inl ((ShapeError, ''Reshape''), s))"

text \<open>Modelled from the spec: \<open>core::Copy\<close>, "tensor content duplication".\<close>

definition Copy :: "loc \<Rightarrow> loc \<Rightarrow> 'd store \<Rightarrow> 'd outcome" where
  "Copy src dst s = Inr (s(dst := (s dst)\<lparr>data := data (s src)\<rparr>))"

section \<open>The numeric kernels\<close>

text \<open>
  The kernels are external collaborators, pure and deterministic given their operands
  (external interfaces). They are a parameter of the model: a kernel takes the operand
  tensors, the scalars and the tensor it writes, and yields the new contents of that
  tensor. \<open>subtensor_impl\<close> is the contents of the view \<open>t[i]\<close>.
\<close>

record 'd kernel_impl =
  MatMul_impl :: "'d Tensor \<Rightarrow> bool \<Rightarrow> 'd Tensor \<Rightarrow> bool \<Rightarrow> real \<Rightarrow> 'd Tensor \<Rightarrow> real \<Rightarrow> 'd"
  BatchMatMul_impl :: "'d Tensor \<Rightarrow> bool \<Rightarrow> 'd Tensor \<Rightarrow> bool \<Rightarrow> real \<Rightarrow> 'd Tensor \<Rightarrow> real \<Rightarrow> 'd"
  LayerNorm_impl :: "'d Tensor \<Rightarrow> 'd Tensor \<Rightarrow> 'd Tensor \<Rightarrow> real \<Rightarrow> 'd"
  ApplyMaskAndSoftmax_impl :: "'d Tensor \<Rightarrow> 'd Tensor \<Rightarrow> real \<Rightarrow> 'd"
  AddBiasTransposeForScore_impl :: "'d Tensor \<Rightarrow> 'd Tensor \<Rightarrow> 'd Tensor \<Rightarrow> 'd"
  SplitAddBiasTransposeForScore_impl :: "'d Tensor \<Rightarrow> 'd Tensor \<Rightarrow> 'd Tensor \<Rightarrow> 'd"
  TransposeForScore_impl :: "'d Tensor \<Rightarrow> 'd Tensor \<Rightarrow> 'd"
  AddBias_impl :: "'d Tensor \<Rightarrow> 'd Tensor \<Rightarrow> 'd"
  AddInputBias_impl :: "'d Tensor \<Rightarrow> 'd Tensor \<Rightarrow> 'd Tensor \<Rightarrow> 'd Tensor \<Rightarrow> 'd"
  subtensor_impl :: "'d Tensor \<Rightarrow> nat \<Rightarrow> 'd"

text \<open>A kernel call as a statement: the written tensor gets new contents, nothing else changes.\<close>

definition MatMul ::
  "'d kernel_impl \<Rightarrow> loc \<Rightarrow> bool \<Rightarrow> loc \<Rightarrow> bool \<Rightarrow> real \<Rightarrow> loc \<Rightarrow> real \<Rightarrow> 'd store \<Rightarrow> 'd outcome" where
  "MatMul K A ta B tb alpha out beta s =
     Inr (s(out := (s out)\<lparr>data := MatMul_impl K (s A) ta (s B) tb alpha (s out) beta\<rparr>))"

definition BatchMatMul ::
  "'d kernel_impl \<Rightarrow> loc \<Rightarrow> bool \<Rightarrow> loc \<Rightarrow> bool \<Rightarrow> real \<Rightarrow> loc \<Rightarrow> real \<Rightarrow> 'd store \<Rightarrow> 'd outcome" where
  "BatchMatMul K A ta B tb alpha out beta s =
     Inr (s(out := (s out)\<lparr>data := BatchMatMul_impl K (s A) ta (s B) tb alpha (s out) beta\<rparr>))"

definition LayerNorm :: "'d kernel_impl \<Rightarrow> loc \<Rightarrow> loc \<Rightarrow> loc \<Rightarrow> real \<Rightarrow> 'd store \<Rightarrow> 'd outcome" where
  "LayerNorm K gamma beta out eps s =
     Inr (s(out := (s out)\<lparr>data := LayerNorm_impl K (s gamma) (s beta) (s out) eps\<rparr>))"

definition ApplyMaskAndSoftmax :: "'d kernel_impl \<Rightarrow> loc \<Rightarrow> loc \<Rightarrow> real \<Rightarrow> 'd store \<Rightarrow> 'd outcome" where
  "ApplyMaskAndSoftmax K inout att_mask scale s =
     Inr (s(inout := (s inout)\<lparr>data := ApplyMaskAndSoftmax_impl K (s inout) (s att_mask) scale\<rparr>))"

definition AddBiasTransposeForScore :: "'d kernel_impl \<Rightarrow> loc \<Rightarrow> loc \<Rightarrow> loc \<Rightarrow> 'd store \<Rightarrow> 'd outcome" where
  "AddBiasTransposeForScore K inp bias out s =
     Inr (s(out := (s out)\<lparr>data := AddBiasTransposeForScore_impl K (s inp) (s bias) (s out)\<rparr>))"

definition SplitAddBiasTransposeForScore :: "'d kernel_impl \<Rightarrow> loc \<Rightarrow> loc \<Rightarrow> loc \<Rightarrow> 'd store \<Rightarrow> 'd outcome" where
  "SplitAddBiasTransposeForScore K out inp bias s =
     Inr (s(out := (s out)\<lparr>data := SplitAddBiasTransposeForScore_impl K (s out) (s inp) (s bias)\<rparr>))"

definition TransposeForScore :: "'d kernel_impl \<Rightarrow> loc \<Rightarrow> loc \<Rightarrow> 'd store \<Rightarrow> 'd outcome" where
  "TransposeForScore K out inp s =
     Inr (s(out := (s out)\<lparr>data := TransposeForScore_impl K (s out) (s inp)\<rparr>))"

definition AddBias :: "'d kernel_impl \<Rightarrow> loc \<Rightarrow> loc \<Rightarrow> 'd store \<Rightarrow> 'd outcome" where
  "AddBias K bias out s =
     Inr (s(out := (s out)\<lparr>data := AddBias_impl K (s bias) (s out)\<rparr>))"

definition AddInputBias :: "'d kernel_impl \<Rightarrow> loc \<Rightarrow> loc \<Rightarrow> loc \<Rightarrow> loc \<Rightarrow> 'd store \<Rightarrow> 'd outcome" where
  "AddInputBias K in1 in2 bias out s =
     Inr (s(out := (s out)\<lparr>data := AddInputBias_impl K (s in1) (s in2) (s bias) (s out)\<rparr>))"

text \<open>
  Modelled from the spec: \<open>Tensor::operator[]\<close>, the view of sub-tensor \<open>i\<close> of the leading
  dimension: the remaining dimensions, the same device, the contents of that part of the
  buffer.
\<close>

definition subtensor :: "'d kernel_impl \<Rightarrow> 'd Tensor \<Rightarrow> nat \<Rightarrow> 'd Tensor" where
  "subtensor K t i = \<lparr>dims = tl (dims t), device_ctx = device_ctx t, data = subtensor_impl K t i\<rparr>"

text \<open>\<open>p = new core::Tensor(t[i])\<close>: a fresh object that holds the view.\<close>

definition new_Tensor :: "'d kernel_impl \<Rightarrow> loc \<Rightarrow> loc \<Rightarrow> nat \<Rightarrow> 'd store \<Rightarrow> 'd outcome" where
  "new_Tensor K p t i s = Inr (s(p := subtensor K (s t) i))"

section \<open>The attention pipeline\<close>

text \<open>The locals the function derives from the query tensor and the attention type.\<close>

record locals =
  batch_size :: int
  query_seq_length :: int
  key_seq_length :: int
  hidden_size :: int
  size_per_head :: int
  devtype :: DLDeviceType
  devid :: int
  devctx :: DLContext

text \<open>The checks at the head of the function, in the order of the source.\<close>

definition device_msg :: string where
  "device_msg = ''The key_tensor and attention_mask should have the same device type and device id.''"

definition key_rank_msg :: string where
  "key_rank_msg =
     ''The key_tensor should be a matrix with shape [batch_size, key_seq_len, hidden_size].''"

definition value_rank_msg :: string where
  "value_rank_msg =
     ''The value_tensor should be a matrix with shape [batch_size, key_seq_len, hidden_size].''"

definition query_rank_msg :: string where
  "query_rank_msg =
     ''The query_tensors should be a matrix with shape [batch_size, query_seq_len, hidden_size].''"

definition hidden_size_msg :: string where
  "hidden_size_msg = ''The key_tensor and value_tensor should have the same hidden_size''"

definition enforce_inputs :: "call \<Rightarrow> 'd store \<Rightarrow> 'd outcome" where
  "enforce_inputs a s =
     steps
       [TT_ENFORCE_EQ
          (is_same_device_ctx (device_ctx (s (key_tensor a))) (device_ctx (s (attention_mask a)))) True
          (DeviceMismatchError, device_msg),
        TT_ENFORCE_EQ (n_dim (s (key_tensor a))) 3 (ShapeError, key_rank_msg),
        TT_ENFORCE_EQ (n_dim (s (value_tensor a))) 3 (ShapeError, value_rank_msg),
        TT_ENFORCE_EQ (n_dim (s (query_tensor a))) 3 (ShapeError, query_rank_msg),
        TT_ENFORCE_EQ (shape (s (key_tensor a)) 0) (shape (s (value_tensor a)) 0)
          (ShapeError, hidden_size_msg)]
       s"

text \<open>\<open>EnforceShapeAndType\<close> only prints the weights to the log.\<close>

definition EnforceShapeAndType :: "'d store \<Rightarrow> 'd outcome" where
  "EnforceShapeAndType s = Inr s"

definition attn_type_msg :: string where
  "attn_type_msg = ''attn_type should be context or self.''"

definition not_support_msg :: "string \<Rightarrow> string" where
  "not_support_msg attn_type = attn_type @ '' is not support in MultiHeadedAttention'' @ [CHR 0x0A]"

text \<open>The first dispatch on \<open>attn_type\<close>: the key sequence length.\<close>

definition derive_key_seq_length :: "string \<Rightarrow> call \<Rightarrow> 'd store \<Rightarrow> error + int" where
  "derive_key_seq_length attn_type a s =
     (if attn_type = ''context'' then Inr (shape (s (key_tensor a)) 1)
      else if attn_type = ''self'' then Inr (shape (s (query_tensor a)) 1)
      else Inl (InvalidArgument, attn_type_msg))"

text \<open>The branch \<open>attn_type == "context"\<close>: separate projections of query, key and value.\<close>

definition project_context ::
  "'d kernel_impl \<Rightarrow> int \<Rightarrow> bool \<Rightarrow> locals \<Rightarrow> call \<Rightarrow> 'd store \<Rightarrow> 'd outcome" where
  "project_context K num_attention_heads pre_layernorm L a s =
     (let q_out1 = Temp q_out1_temp (devctx L);
          v_out1 = Temp v_out1_temp (device_ctx (s (value_tensor a)));
          k_out1 = Temp k_out1_temp (device_ctx (s (key_tensor a)));
          q_out2 = Temp q_out2_temp (devctx L);
          v_out2 = Temp v_out2_temp (device_ctx (s (value_tensor a)));
          k_out2 = Temp k_out2_temp (device_ctx (s (key_tensor a)))
      in steps
       [Reshape q_out1 [batch_size L, query_seq_length L, hidden_size L] (devtype L) (devid L),
        Reshape v_out1 [batch_size L, key_seq_length L, hidden_size L] (devtype L) (devid L),
        Reshape k_out1 [batch_size L, key_seq_length L, hidden_size L] (devtype L) (devid L),
        (if pre_layernorm
         then steps
           [Reshape q_out2 [batch_size L, query_seq_length L, hidden_size L] (devtype L) (devid L),
            Copy (query_tensor a) q_out2,
            LayerNorm K (Member layernorm_gamma) (Member layernorm_beta) q_out2 (1 / 1000000),
            MatMul K q_out2 False (Member q_weight) False 1 q_out1 0]
         else MatMul K (query_tensor a) False (Member q_weight) False 1 q_out1 0),
        MatMul K (key_tensor a) False (Member k_weight) False 1 k_out1 0,
        MatMul K (value_tensor a) False (Member v_weight) False 1 v_out1 0,
        Reshape q_out1 [batch_size L, query_seq_length L, num_attention_heads, size_per_head L]
          (devtype L) (devid L),
        Reshape v_out1 [batch_size L, key_seq_length L, num_attention_heads, size_per_head L]
          (devtype L) (devid L),
        Reshape k_out1 [batch_size L, key_seq_length L, num_attention_heads, size_per_head L]
          (devtype L) (devid L),
        Reshape q_out2 [batch_size L, num_attention_heads, query_seq_length L, size_per_head L]
          (devtype L) (devid L),
        Reshape v_out2 [batch_size L, num_attention_heads, key_seq_length L, size_per_head L]
          (devtype L) (devid L),
        Reshape k_out2 [batch_size L, num_attention_heads, key_seq_length L, size_per_head L]
          (devtype L) (devid L),
        AddBiasTransposeForScore K q_out1 (Member q_bias) q_out2,
        AddBiasTransposeForScore K v_out1 (Member v_bias) v_out2,
        AddBiasTransposeForScore K k_out1 (Member k_bias) k_out2]
       s)"

text \<open>The branch \<open>attn_type == "self"\<close>: one fused projection, then the split.\<close>

definition project_self ::
  "'d kernel_impl \<Rightarrow> int \<Rightarrow> bool \<Rightarrow> locals \<Rightarrow> call \<Rightarrow> 'd store \<Rightarrow> 'd outcome" where
  "project_self K num_attention_heads pre_layernorm L a s =
     (let qkv_out1 = Temp qkv_out1_temp (devctx L);
          qkv_out2 = Temp qkv_out2_temp (devctx L)
      in steps
       [Reshape qkv_out1 [3, batch_size L, query_seq_length L, hidden_size L] (devtype L) (devid L),
        (if pre_layernorm
         then steps
           [Reshape layernormed_query [batch_size L, query_seq_length L, hidden_size L]
              (devtype L) (devid L),
            Copy (query_tensor a) layernormed_query,
            LayerNorm K (Member layernorm_gamma) (Member layernorm_beta) layernormed_query (1 / 1000000),
            MatMul K layernormed_query False (Member qkv_weight) False 1 qkv_out1 0]
         else MatMul K (query_tensor a) False (Member qkv_weight) False 1 qkv_out1 0),
        Reshape qkv_out2
          [3, batch_size L, num_attention_heads, query_seq_length L, size_per_head L]
          (devtype L) (devid L),
        SplitAddBiasTransposeForScore K qkv_out2 qkv_out1 (Member qkv_bias),
        new_Tensor K new_q qkv_out2 0,
        new_Tensor K new_k qkv_out2 1,
        new_Tensor K new_v qkv_out2 2]
       s)"

text \<open>
  The second dispatch on \<open>attn_type\<close>: the projection stage, which also sets the pointers
  \<open>q_ptr\<close>, \<open>k_ptr\<close> and \<open>v_ptr\<close>.
\<close>

definition project ::
  "'d kernel_impl \<Rightarrow> int \<Rightarrow> string \<Rightarrow> bool \<Rightarrow> locals \<Rightarrow> call \<Rightarrow> 'd store
     \<Rightarrow> (error \<times> 'd store) + ((loc \<times> loc \<times> loc) \<times> 'd store)" where
  "project K num_attention_heads attn_type pre_layernorm L a s =
     (if attn_type = ''context'' then
        (case project_context K num_attention_heads pre_layernorm L a s of
           Inl x \<Rightarrow> Inl x
         | Inr s' \<Rightarrow>
             Inr ((Temp q_out2_temp (devctx L),
                   Temp k_out2_temp (device_ctx (s (key_tensor a))),
                   Temp v_out2_temp (device_ctx (s (value_tensor a)))), s'))
      else if attn_type = ''self'' then
        (case project_self K num_attention_heads pre_layernorm L a s of
           Inl x \<Rightarrow> Inl x
         | Inr s' \<Rightarrow> Inr ((new_q, new_k, new_v), s'))
      else Inl ((InvalidArgument, not_support_msg attn_type), s))"

text \<open>Steps 2 to the end: scores, masked softmax, weighted sum, unshape, output projection, bias.\<close>

definition attend ::
  "'d kernel_impl \<Rightarrow> int \<Rightarrow> bool \<Rightarrow> locals \<Rightarrow> loc \<Rightarrow> loc \<Rightarrow> loc \<Rightarrow> call \<Rightarrow> 'd store
     \<Rightarrow> 'd outcome" where
  "attend K num_attention_heads post_add L q_ptr k_ptr v_ptr a s =
     (let att_score = Temp att_score_tmp (devctx L);
          scaler = 1 / sqrt (real_of_int (size_per_head L));
          context_layer = Temp context_layer_tmpr (devctx L);
          self_attr_out = Temp self_attr_out_tmp (devctx L)
      in steps
       [Reshape att_score
          [batch_size L, num_attention_heads, query_seq_length L, key_seq_length L]
          (devtype L) (devid L),
        BatchMatMul K q_ptr False k_ptr True scaler att_score 0,
        ApplyMaskAndSoftmax K att_score (attention_mask a) 1,
        Reshape context_layer
          [batch_size L, num_attention_heads, query_seq_length L, size_per_head L]
          (devtype L) (devid L),
        BatchMatMul K att_score False v_ptr False 1 context_layer 0,
        Reshape self_attr_out
          [batch_size L, query_seq_length L, num_attention_heads * size_per_head L]
          (devtype L) (devid L),
        TransposeForScore K self_attr_out context_layer,
        Reshape (output_tensor a) [batch_size L, query_seq_length L, hidden_size L]
          (devtype L) (devid L),
        MatMul K self_attr_out False (Member dense_weight) False 1 (output_tensor a) 0,
        (if False = post_add
         then AddBias K (Member dense_bias) (output_tensor a)
         else AddInputBias K (output_tensor a) (query_tensor a) (Member dense_bias)
                (output_tensor a))]
       s)"

text \<open>
  \<open>MultiHeadedAttention::operator()\<close>. The function holds one global lock from its first
  line to its last, so calls do not interleave: the model is of one call. The integers are
  \<open>int64_t\<close> in the source; the only arithmetic is one division (truncating, \<open>sdiv\<close>) and the
  product
  \<open>num_attention_heads_ * size_per_head\<close>, which a reshape to positive dimensions has
  bounded by \<open>hidden_size\<close> before it is formed.
\<close>

definition derive_locals :: "int \<Rightarrow> int \<Rightarrow> call \<Rightarrow> 'd store \<Rightarrow> locals" where
  "derive_locals num_attention_heads ksl a s =
     \<lparr>batch_size = shape (s (query_tensor a)) 0,
      query_seq_length = shape (s (query_tensor a)) 1,
      key_seq_length = ksl,
      hidden_size = shape (s (query_tensor a)) 2,
      size_per_head = shape (s (query_tensor a)) 2 sdiv num_attention_heads,
      devtype = device_type (s (query_tensor a)),
      devid = device_id (s (query_tensor a)),
      devctx = device_ctx (s (query_tensor a))\<rparr>"

definition ComputeAttention ::
  "'d kernel_impl \<Rightarrow> int \<Rightarrow> string \<Rightarrow> bool \<Rightarrow> bool \<Rightarrow> call \<Rightarrow> 'd store \<Rightarrow> 'd outcome" where
  "ComputeAttention K num_attention_heads attn_type pre_layernorm post_add a s =
     (case steps [enforce_inputs a, EnforceShapeAndType] s of
        Inl x \<Rightarrow> Inl x
      | Inr s1 \<Rightarrow>
         (case derive_key_seq_length attn_type a s1 of
            Inl e \<Rightarrow> Inl (e, s1)
          | Inr ksl \<Rightarrow>
             if num_attention_heads = 0 then Inl ((ArithmeticFault, []), s1)
             else
               let L = derive_locals num_attention_heads ksl a s1
               in (case project K num_attention_heads attn_type pre_layernorm L a s1 of
                     Inl x \<Rightarrow> Inl x
                   | Inr ((q_ptr, k_ptr, v_ptr), s2) \<Rightarrow>
                       attend K num_attention_heads post_add L q_ptr k_ptr v_ptr a s2)))"

text \<open>The store a call leaves behind, whether it returns or throws.\<close>

definition final_store :: "'d outcome \<Rightarrow> 'd store" where
  "final_store r = (case r of Inl (e, s) \<Rightarrow> s | Inr s \<Rightarrow> s)"

section \<open>Valid calls\<close>

text \<open>The five checks at the head of the function all pass.\<close>

definition inputs_conform :: "call \<Rightarrow> 'd store \<Rightarrow> bool" where
  "inputs_conform a s \<longleftrightarrow>
     is_same_device_ctx (device_ctx (s (key_tensor a))) (device_ctx (s (attention_mask a))) \<and>
     n_dim (s (key_tensor a)) = 3 \<and> n_dim (s (value_tensor a)) = 3 \<and> n_dim (s (query_tensor a)) = 3 \<and>
     shape (s (key_tensor a)) 0 = shape (s (value_tensor a)) 0"

text \<open>
  A valid call: the checks pass, the attention type is one of the two variants, every
  dimension that a reshape receives is positive, and there is at least one head and at most
  \<open>hidden_size\<close> of them (so that \<open>size_per_head\<close> is positive). Lemma \<open>returns_iff_valid\<close>
  shows that these are exactly the calls that return.
\<close>

definition valid_call :: "int \<Rightarrow> string \<Rightarrow> call \<Rightarrow> 'd store \<Rightarrow> bool" where
  "valid_call num_attention_heads attn_type a s \<longleftrightarrow>
     inputs_conform a s \<and>
     (attn_type = ''context'' \<and> 0 < shape (s (key_tensor a)) 1 \<or> attn_type = ''self'') \<and>
     0 < shape (s (query_tensor a)) 0 \<and> 0 < shape (s (query_tensor a)) 1 \<and>
     0 < num_attention_heads \<and> num_attention_heads \<le> shape (s (query_tensor a)) 2"

definition ksl_of :: "string \<Rightarrow> call \<Rightarrow> 'd store \<Rightarrow> int" where
  "ksl_of attn_type a s =
     (if attn_type = ''context'' then shape (s (key_tensor a)) 1 else shape (s (query_tensor a)) 1)"

definition positive_locals :: "int \<Rightarrow> locals \<Rightarrow> bool" where
  "positive_locals n L \<longleftrightarrow>
     0 < batch_size L \<and> 0 < query_seq_length L \<and> 0 < key_seq_length L \<and> 0 < hidden_size L \<and>
     0 < size_per_head L \<and> 0 < n \<and> devctx L = (devtype L, devid L)"

section \<open>Proof vocabulary: what a statement keeps and what it raises\<close>

definition keeps :: "loc \<Rightarrow> ('d store \<Rightarrow> 'd outcome) \<Rightarrow> bool" where
  "keeps l m \<longleftrightarrow> (\<forall>s. final_store (m s) l = s l)"

definition raises_only :: "(error \<Rightarrow> bool) \<Rightarrow> ('d store \<Rightarrow> 'd outcome) \<Rightarrow> bool" where
  "raises_only P m \<longleftrightarrow> (\<forall>s e s'. m s = Inl (e, s') \<longrightarrow> P e)"

text \<open>The objects the projection stage writes, and the arena slots the later steps write.\<close>

definition projection_slot :: "loc \<Rightarrow> bool" where
  "projection_slot l \<longleftrightarrow>
     (case l of
        Temp sl c \<Rightarrow> sl \<noteq> att_score_tmp \<and> sl \<noteq> context_layer_tmpr \<and> sl \<noteq> self_attr_out_tmp
      | layernormed_query \<Rightarrow> True | new_q \<Rightarrow> True | new_k \<Rightarrow> True | new_v \<Rightarrow> True
      | _ \<Rightarrow> False)"

definition attend_slot :: "loc \<Rightarrow> bool" where
  "attend_slot l \<longleftrightarrow>
     (case l of
        Temp sl c \<Rightarrow> sl = att_score_tmp \<or> sl = context_layer_tmpr \<or> sl = self_attr_out_tmp
      | _ \<Rightarrow> False)"

section \<open>What the projection stage computes\<close>

text \<open>
  The three chains of kernel calls of the projection stage, as functions of the operand
  tensors and of the stale contents of the scratch buffers they write: the copy of the
  query that is normalised (lines 102-110 and 147-155), one separate projection (lines 95-137,
  for one of query, key, value), and slice \<open>i\<close> of the fused projection (lines 141-169).
\<close>

definition layernormed :: "'d kernel_impl \<Rightarrow> locals \<Rightarrow> 'd Tensor \<Rightarrow> 'd Tensor \<Rightarrow> 'd Tensor \<Rightarrow> 'd Tensor" where
  "layernormed K L gamma beta x =
     (let t = \<lparr>dims = [batch_size L, query_seq_length L, hidden_size L],
                device_ctx = (devtype L, devid L), data = data x\<rparr>
      in t\<lparr>data := LayerNorm_impl K gamma beta t (1 / 1000000)\<rparr>)"

definition separate_projection ::
  "'d kernel_impl \<Rightarrow> int \<Rightarrow> locals \<Rightarrow> int \<Rightarrow> 'd Tensor \<Rightarrow> 'd Tensor \<Rightarrow> 'd Tensor \<Rightarrow> 'd \<Rightarrow> 'd
     \<Rightarrow> 'd Tensor" where
  "separate_projection K num_attention_heads L seq_length x w bias stale1 stale2 =
     (let o1 = \<lparr>dims = [batch_size L, seq_length, hidden_size L],
                 device_ctx = (devtype L, devid L), data = stale1\<rparr>;
          r = \<lparr>dims = [batch_size L, seq_length, num_attention_heads, size_per_head L],
                device_ctx = (devtype L, devid L),
                data = MatMul_impl K x False w False 1 o1 0\<rparr>;
          o2 = \<lparr>dims = [batch_size L, num_attention_heads, seq_length, size_per_head L],
                 device_ctx = (devtype L, devid L), data = stale2\<rparr>
      in o2\<lparr>data := AddBiasTransposeForScore_impl K r bias o2\<rparr>)"

definition fused_projection ::
  "'d kernel_impl \<Rightarrow> int \<Rightarrow> locals \<Rightarrow> 'd Tensor \<Rightarrow> 'd Tensor \<Rightarrow> 'd Tensor \<Rightarrow> 'd \<Rightarrow> 'd \<Rightarrow> nat
     \<Rightarrow> 'd Tensor" where
  "fused_projection K num_attention_heads L x w bias stale1 stale2 i =
     (let o1 = \<lparr>dims = [3, batch_size L, query_seq_length L, hidden_size L],
                 device_ctx = (devtype L, devid L), data = stale1\<rparr>;
          p = o1\<lparr>data := MatMul_impl K x False w False 1 o1 0\<rparr>;
          o2 = \<lparr>dims = [3, batch_size L, num_attention_heads, query_seq_length L,
                         size_per_head L],
                 device_ctx = (devtype L, devid L), data = stale2\<rparr>;
          r = o2\<lparr>data := SplitAddBiasTransposeForScore_impl K o2 p bias\<rparr>
      in subtensor K r i)"

text \<open>The tensor that is projected as the query: the caller's, or its normalised copy.\<close>

definition query_input :: "'d kernel_impl \<Rightarrow> locals \<Rightarrow> bool \<Rightarrow> call \<Rightarrow> 'd store \<Rightarrow> 'd Tensor" where
  "query_input K L pre_layernorm a s =
     (if pre_layernorm
      then layernormed K L (s (Member layernorm_gamma)) (s (Member layernorm_beta))
             (s (query_tensor a))
      else s (query_tensor a))"

text \<open>
  The head-major query, key and value of a call, in this order: what \<open>*q_ptr\<close>, \<open>*k_ptr\<close>
  and \<open>*v_ptr\<close> hold after the projection stage (lemma \<open>project_result\<close>).
\<close>

definition head_major ::
  "'d kernel_impl \<Rightarrow> int \<Rightarrow> string \<Rightarrow> bool \<Rightarrow> locals \<Rightarrow> call \<Rightarrow> 'd store
     \<Rightarrow> 'd Tensor \<times> 'd Tensor \<times> 'd Tensor" where
  "head_major K num_attention_heads attn_type pre_layernorm L a s =
     (let x = query_input K L pre_layernorm a s;
          kctx = device_ctx (s (key_tensor a));
          vctx = device_ctx (s (value_tensor a))
      in if attn_type = ''context'' then
           (separate_projection K num_attention_heads L (query_seq_length L) x
              (s (Member q_weight)) (s (Member q_bias)) (data (s (Temp q_out1_temp (devctx L))))
              (if pre_layernorm then data x else data (s (Temp q_out2_temp (devctx L)))),
            separate_projection K num_attention_heads L (key_seq_length L) (s (key_tensor a))
              (s (Member k_weight)) (s (Member k_bias)) (data (s (Temp k_out1_temp kctx)))
              (data (s (Temp k_out2_temp kctx))),
            separate_projection K num_attention_heads L (key_seq_length L) (s (value_tensor a))
              (s (Member v_weight)) (s (Member v_bias)) (data (s (Temp v_out1_temp vctx)))
              (data (s (Temp v_out2_temp vctx))))
         else
           (let fused = fused_projection K num_attention_heads L x (s (Member qkv_weight))
                          (s (Member qkv_bias)) (data (s (Temp qkv_out1_temp (devctx L))))
                          (data (s (Temp qkv_out2_temp (devctx L))))
            in (fused 0, fused 1, fused 2)))"



section \<open>Concrete calls, kernels and stores\<close>

text \<open>A call with five different objects, and one whose output is the query object.\<close>

definition example_call :: call where
  "example_call = \<lparr>key_obj = 0, value_obj = 1, query_obj = 2, mask_obj = 3, output_obj = 4\<rparr>"


text \<open>
  With contents of type \<open>unit\<close> the model runs the orchestration alone: shapes, devices and
  errors.
\<close>

definition shape_only :: "unit kernel_impl" where
  "shape_only =
     \<lparr>MatMul_impl = (\<lambda>A ta B tb alpha out beta. ()),
      BatchMatMul_impl = (\<lambda>A ta B tb alpha out beta. ()),
      LayerNorm_impl = (\<lambda>gamma beta out eps. ()),
      ApplyMaskAndSoftmax_impl = (\<lambda>inout att_mask scale. ()),
      AddBiasTransposeForScore_impl = (\<lambda>inp bias out. ()),
      SplitAddBiasTransposeForScore_impl = (\<lambda>out inp bias. ()),
      TransposeForScore_impl = (\<lambda>out inp. ()),
      AddBias_impl = (\<lambda>bias out. ()),
      AddInputBias_impl = (\<lambda>in1 in2 bias out. ()),
      subtensor_impl = (\<lambda>t i. ())\<rparr>"

definition cpu :: DLContext where
  "cpu = (kDLCPU, 0)"

definition gpu :: DLContext where
  "gpu = (kDLGPU, 0)"

text \<open>Batch 2, five key positions, three query positions, hidden size 8.\<close>

definition example_store :: "unit store" where
  "example_store =
     (\<lambda>l. \<lparr>dims = [], device_ctx = cpu, data = ()\<rparr>)
       (Caller 0 := \<lparr>dims = [2, 5, 8], device_ctx = cpu, data = ()\<rparr>,
        Caller 1 := \<lparr>dims = [2, 5, 8], device_ctx = cpu, data = ()\<rparr>,
        Caller 2 := \<lparr>dims = [2, 3, 8], device_ctx = cpu, data = ()\<rparr>,
        Caller 3 := \<lparr>dims = [2, 1, 1, 5], device_ctx = cpu, data = ()\<rparr>)"

text \<open>Variants of the example: the mask or the value on a GPU, a value tensor with another
  hidden size, a value tensor with another batch size.\<close>

definition gpu_mask_store :: "unit store" where
  "gpu_mask_store =
     example_store(Caller 3 := \<lparr>dims = [2, 1, 1, 5], device_ctx = gpu, data = ()\<rparr>)"

definition gpu_value_store :: "unit store" where
  "gpu_value_store =
     example_store(Caller 1 := \<lparr>dims = [2, 5, 8], device_ctx = gpu, data = ()\<rparr>)"

definition wide_value_store :: "unit store" where
  "wide_value_store =
     example_store(Caller 1 := \<lparr>dims = [2, 5, 16], device_ctx = cpu, data = ()\<rparr>)"

definition batch3_value_store :: "unit store" where
  "batch3_value_store =
     example_store(Caller 1 := \<lparr>dims = [3, 5, 8], device_ctx = cpu, data = ()\<rparr>)"

text \<open>
  Kernels that record the call instead of computing: the contents of a tensor are the
  expression that produced them. A product records \<open>alpha\<close> and \<open>beta\<close>; with
  \<open>beta = 0\<close>, as in every call of the function, the tensor written is not an operand.
\<close>

datatype recorded =
    Given string
  | MatMul_of recorded bool recorded bool real real
  | BatchMatMul_of recorded bool recorded bool real real
  | LayerNorm_of recorded recorded recorded real
  | ApplyMaskAndSoftmax_of recorded recorded real
  | AddBiasTransposeForScore_of recorded recorded
  | SplitAddBiasTransposeForScore_of recorded recorded
  | TransposeForScore_of recorded
  | AddBias_of recorded recorded
  | AddInputBias_of recorded recorded recorded
  | Slice_of recorded nat

definition recording :: "recorded kernel_impl" where
  "recording =
     \<lparr>MatMul_impl = (\<lambda>A ta B tb alpha out beta. MatMul_of (data A) ta (data B) tb alpha beta),
      BatchMatMul_impl =
        (\<lambda>A ta B tb alpha out beta. BatchMatMul_of (data A) ta (data B) tb alpha beta),
      LayerNorm_impl = (\<lambda>gamma beta out eps. LayerNorm_of (data gamma) (data beta) (data out) eps),
      ApplyMaskAndSoftmax_impl =
        (\<lambda>inout att_mask scale. ApplyMaskAndSoftmax_of (data inout) (data att_mask) scale),
      AddBiasTransposeForScore_impl =
        (\<lambda>inp bias out. AddBiasTransposeForScore_of (data inp) (data bias)),
      SplitAddBiasTransposeForScore_impl =
        (\<lambda>out inp bias. SplitAddBiasTransposeForScore_of (data inp) (data bias)),
      TransposeForScore_impl = (\<lambda>out inp. TransposeForScore_of (data inp)),
      AddBias_impl = (\<lambda>bias out. AddBias_of (data out) (data bias)),
      AddInputBias_impl =
        (\<lambda>in1 in2 bias out. AddInputBias_of (data in1) (data in2) (data bias)),
      subtensor_impl = (\<lambda>t i. Slice_of (data t) i)\<rparr>"

text \<open>The example with named contents: every tensor holds its own name.\<close>

definition named_store :: "recorded store" where
  "named_store =
     (\<lambda>l. \<lparr>dims = [], device_ctx = cpu, data = Given ''stale''\<rparr>)
       (Caller 0 := \<lparr>dims = [2, 5, 8], device_ctx = cpu, data = Given ''key''\<rparr>,
        Caller 1 := \<lparr>dims = [2, 5, 8], device_ctx = cpu, data = Given ''value''\<rparr>,
        Caller 2 := \<lparr>dims = [2, 3, 8], device_ctx = cpu, data = Given ''query''\<rparr>,
        Caller 3 := \<lparr>dims = [2, 1, 1, 5], device_ctx = cpu, data = Given ''mask''\<rparr>,
        Member q_weight := \<lparr>dims = [8, 8], device_ctx = cpu, data = Given ''q_weight''\<rparr>,
        Member k_weight := \<lparr>dims = [8, 8], device_ctx = cpu, data = Given ''k_weight''\<rparr>,
        Member v_weight := \<lparr>dims = [8, 8], device_ctx = cpu, data = Given ''v_weight''\<rparr>,
        Member q_bias := \<lparr>dims = [8], device_ctx = cpu, data = Given ''q_bias''\<rparr>,
        Member k_bias := \<lparr>dims = [8], device_ctx = cpu, data = Given ''k_bias''\<rparr>,
        Member v_bias := \<lparr>dims = [8], device_ctx = cpu, data = Given ''v_bias''\<rparr>,
        Member qkv_weight := \<lparr>dims = [8, 24], device_ctx = cpu, data = Given ''qkv_weight''\<rparr>,
        Member qkv_bias := \<lparr>dims = [24], device_ctx = cpu, data = Given ''qkv_bias''\<rparr>,
        Member dense_weight := \<lparr>dims = [8, 8], device_ctx = cpu, data = Given ''dense_weight''\<rparr>,
        Member dense_bias := \<lparr>dims = [8], device_ctx = cpu, data = Given ''dense_bias''\<rparr>,
        Member layernorm_gamma := \<lparr>dims = [8], device_ctx = cpu, data = Given ''gamma''\<rparr>,
        Member layernorm_beta := \<lparr>dims = [8], device_ctx = cpu, data = Given ''beta''\<rparr>)"






section \<open>Statements: frame and failures\<close>

lemmas stmt_defs = TT_ENFORCE_EQ_def Reshape_def Copy_def MatMul_def BatchMatMul_def LayerNorm_def
  ApplyMaskAndSoftmax_def AddBiasTransposeForScore_def SplitAddBiasTransposeForScore_def
  TransposeForScore_def AddBias_def AddInputBias_def new_Tensor_def EnforceShapeAndType_def

lemmas run_defs = ComputeAttention_def enforce_inputs_def derive_key_seq_length_def project_def
  project_context_def project_self_def attend_def derive_locals_def stmt_defs Let_def
  device_type_def device_id_def

lemma sdiv_eq_div: "0 < n \<Longrightarrow> 0 \<le> h \<Longrightarrow> (h::int) sdiv n = h div n"
  by (auto simp add: signed_divide_int_def sgn_if)

lemma sdiv_pos_iff: "0 < n \<Longrightarrow> 0 < h \<Longrightarrow> 0 < (h::int) sdiv n \<longleftrightarrow> n \<le> h"
  by (simp add: sdiv_eq_div pos_imp_zdiv_pos_iff)

lemma final_store_simps [simp]:
  "final_store (Inl (e, s)) = s" "final_store (Inr s) = s"
  by (simp_all add: final_store_def)

lemma keeps_steps [simp]: "list_all (keeps l) ms \<Longrightarrow> keeps l (steps ms)"
proof (induction ms)
  case Nil
  then show ?case by (simp add: keeps_def)
next
  case (Cons m ms)
  then have m: "\<And>s. final_store (m s) l = s l" and ms: "\<And>s. final_store (steps ms s) l = s l"
    by (simp_all add: keeps_def)
  show ?case
    unfolding keeps_def
  proof
    fix s
    show "final_store (steps (m # ms) s) l = s l"
    proof (cases "m s")
      case (Inl x)
      then show ?thesis using m[of s] by simp
    next
      case (Inr s')
      then show ?thesis using m[of s] ms[of s'] by simp
    qed
  qed
qed

lemma keeps_stepsD: "list_all (keeps l) ms \<Longrightarrow> final_store (steps ms s) l = s l"
  using keeps_steps[of l ms] by (simp add: keeps_def)

lemma keeps_stmt [simp]:
  "keeps l (TT_ENFORCE_EQ a b e)"
  "keeps l EnforceShapeAndType"
  "l \<noteq> t \<Longrightarrow> keeps l (Reshape t shp dt di)"
  "l \<noteq> t \<Longrightarrow> keeps l (Copy src t)"
  "l \<noteq> t \<Longrightarrow> keeps l (MatMul K A ta B tb al t be)"
  "l \<noteq> t \<Longrightarrow> keeps l (BatchMatMul K A ta B tb al t be)"
  "l \<noteq> t \<Longrightarrow> keeps l (LayerNorm K g bt t eps)"
  "l \<noteq> t \<Longrightarrow> keeps l (ApplyMaskAndSoftmax K t m sc)"
  "l \<noteq> t \<Longrightarrow> keeps l (AddBiasTransposeForScore K i bi t)"
  "l \<noteq> t \<Longrightarrow> keeps l (SplitAddBiasTransposeForScore K t i bi)"
  "l \<noteq> t \<Longrightarrow> keeps l (TransposeForScore K t i)"
  "l \<noteq> t \<Longrightarrow> keeps l (AddBias K bi t)"
  "l \<noteq> t \<Longrightarrow> keeps l (AddInputBias K i1 i2 bi t)"
  "l \<noteq> t \<Longrightarrow> keeps l (new_Tensor K t src n)"
  by (simp_all add: keeps_def stmt_defs)

lemma raises_only_steps [simp]: "list_all (raises_only P) ms \<Longrightarrow> raises_only P (steps ms)"
proof (induction ms)
  case Nil
  then show ?case by (simp add: raises_only_def)
next
  case (Cons m ms)
  then have rm: "raises_only P m" and rms: "raises_only P (steps ms)" by simp_all
  have m: "\<And>s e s'. m s = Inl (e, s') \<Longrightarrow> P e"
    using rm unfolding raises_only_def by blast
  have ms: "\<And>s e s'. steps ms s = Inl (e, s') \<Longrightarrow> P e"
    using rms unfolding raises_only_def by blast
  show ?case
    unfolding raises_only_def
  proof (intro allI impI)
    fix s e s'
    assume a: "steps (m # ms) s = Inl (e, s')"
    show "P e"
    proof (cases "m s")
      case (Inl x)
      with a have "m s = Inl (e, s')" by simp
      then show ?thesis by (rule m)
    next
      case (Inr s1)
      with a have "steps ms s1 = Inl (e, s')" by simp
      then show ?thesis by (rule ms)
    qed
  qed
qed

lemma raises_only_stepsD:
  "list_all (raises_only P) ms \<Longrightarrow> steps ms s = Inl (e, s') \<Longrightarrow> P e"
  using raises_only_steps[of P ms] unfolding raises_only_def by blast

lemma raises_only_stmt [simp]:
  "P e \<Longrightarrow> raises_only P (TT_ENFORCE_EQ a b e)"
  "raises_only P EnforceShapeAndType"
  "P (ShapeError, ''Reshape'') \<Longrightarrow> raises_only P (Reshape t shp dt di)"
  "raises_only P (Copy src t)"
  "raises_only P (MatMul K A ta B tb al t be)"
  "raises_only P (BatchMatMul K A ta B tb al t be)"
  "raises_only P (LayerNorm K g bt t eps)"
  "raises_only P (ApplyMaskAndSoftmax K t m sc)"
  "raises_only P (AddBiasTransposeForScore K i bi t)"
  "raises_only P (SplitAddBiasTransposeForScore K t i bi)"
  "raises_only P (TransposeForScore K t i)"
  "raises_only P (AddBias K bi t)"
  "raises_only P (AddInputBias K i1 i2 bi t)"
  "raises_only P (new_Tensor K t src n)"
  unfolding raises_only_def stmt_defs by (auto split: if_splits)

lemma not_projection_slot_neq:
  "\<not> projection_slot l \<Longrightarrow> sl \<noteq> att_score_tmp \<Longrightarrow> sl \<noteq> context_layer_tmpr \<Longrightarrow>
     sl \<noteq> self_attr_out_tmp \<Longrightarrow> l \<noteq> Temp sl c"
  "\<not> projection_slot l \<Longrightarrow> l \<noteq> layernormed_query"
  "\<not> projection_slot l \<Longrightarrow> l \<noteq> new_q"
  "\<not> projection_slot l \<Longrightarrow> l \<noteq> new_k"
  "\<not> projection_slot l \<Longrightarrow> l \<noteq> new_v"
  by (auto simp: projection_slot_def)

lemma not_attend_slot_neq:
  "\<not> attend_slot l \<Longrightarrow> l \<noteq> Temp att_score_tmp c"
  "\<not> attend_slot l \<Longrightarrow> l \<noteq> Temp context_layer_tmpr c"
  "\<not> attend_slot l \<Longrightarrow> l \<noteq> Temp self_attr_out_tmp c"
  by (auto simp: attend_slot_def)

section \<open>The stages\<close>

lemma enforce_inputs_conform: "inputs_conform a s \<Longrightarrow> enforce_inputs a s = Inr s"
  by (simp add: enforce_inputs_def inputs_conform_def TT_ENFORCE_EQ_def)

lemma enforce_inputs_violated:
  assumes "\<not> inputs_conform a s"
  shows "\<exists>e. enforce_inputs a s = Inl (e, s) \<and> (fst e = ShapeError \<or> fst e = DeviceMismatchError)"
  using assms
  by (auto simp: enforce_inputs_def inputs_conform_def TT_ENFORCE_EQ_def)

lemma project_context_keeps:
  "\<not> projection_slot l \<Longrightarrow> final_store (project_context K n pre L a s) l = s l"
  unfolding project_context_def Let_def by (rule keeps_stepsD) (simp add: not_projection_slot_neq)

lemma project_self_keeps:
  "\<not> projection_slot l \<Longrightarrow> final_store (project_self K n pre L a s) l = s l"
  unfolding project_self_def Let_def by (rule keeps_stepsD) (simp add: not_projection_slot_neq)



lemma project_context_raises:
  "project_context K n pre L a s = Inl (e, s') \<Longrightarrow> e = (ShapeError, ''Reshape'')"
  unfolding project_context_def Let_def
  by (erule raises_only_stepsD[rotated]) simp

lemma project_self_raises:
  "project_self K n pre L a s = Inl (e, s') \<Longrightarrow> e = (ShapeError, ''Reshape'')"
  unfolding project_self_def Let_def
  by (erule raises_only_stepsD[rotated]) simp

lemma attend_raises:
  "attend K n post L q k v a s = Inl (e, s') \<Longrightarrow> e = (ShapeError, ''Reshape'')"
  unfolding attend_def Let_def
  by (erule raises_only_stepsD[rotated]) simp

lemma project_raises:
  assumes "project K n attn_type pre L a s = Inl (e, s')"
    and "attn_type = ''context'' \<or> attn_type = ''self''"
  shows "e = (ShapeError, ''Reshape'')"
  using assms project_context_raises[of K n pre L a s e s'] project_self_raises[of K n pre L a s e s']
  by (auto simp: project_def split: if_splits sum.splits)

lemma derive_key_seq_length_Inr:
  "derive_key_seq_length attn_type a s = Inr ksl \<Longrightarrow> attn_type = ''context'' \<or> attn_type = ''self''"
  by (auto simp: derive_key_seq_length_def split: if_splits)

lemma derive_key_seq_length_Inl:
  "derive_key_seq_length attn_type a s = Inl e \<Longrightarrow>
     e = (InvalidArgument, attn_type_msg) \<and> attn_type \<noteq> ''context'' \<and> attn_type \<noteq> ''self''"
  by (auto simp: derive_key_seq_length_def split: if_splits)

lemma msg_neq: "attn_type_msg \<noteq> not_support_msg a"
proof
  assume "attn_type_msg = not_support_msg a"
  then have "last attn_type_msg = last (not_support_msg a)" by simp
  then show False by (simp add: attn_type_msg_def not_support_msg_def)
qed

section \<open>The whole call\<close>

lemma run_violated:
  assumes "\<not> inputs_conform a s"
  shows "ComputeAttention K n attn_type pre post a s = enforce_inputs a s"
proof -
  from enforce_inputs_violated[OF assms] obtain e where "enforce_inputs a s = Inl (e, s)" by blast
  then show ?thesis by (simp add: ComputeAttention_def)
qed

lemma run_conform:
  assumes "inputs_conform a s"
  shows "ComputeAttention K n attn_type pre post a s =
     (case derive_key_seq_length attn_type a s of
        Inl e \<Rightarrow> Inl (e, s)
      | Inr ksl \<Rightarrow>
          if n = 0 then Inl ((ArithmeticFault, []), s)
          else (case project K n attn_type pre (derive_locals n ksl a s) a s of
                  Inl x \<Rightarrow> Inl x
                | Inr ((q_ptr, k_ptr, v_ptr), s2) \<Rightarrow>
                    attend K n post (derive_locals n ksl a s) q_ptr k_ptr v_ptr a s2))"
  by (simp add: ComputeAttention_def enforce_inputs_conform[OF assms] EnforceShapeAndType_def Let_def
      split: sum.splits)

lemma run_raises:
  assumes "ComputeAttention K n attn_type pre post a s = Inl (e, s')"
  shows "fst e \<noteq> InvalidArgument \<or> e = (InvalidArgument, attn_type_msg)"
proof (cases "inputs_conform a s")
  case False
  from enforce_inputs_violated[OF False] run_violated[OF False, of K n attn_type pre post] assms
  show ?thesis by auto
next
  case True
  note r = run_conform[OF True, of K n attn_type pre post]
  show ?thesis
  proof (cases "derive_key_seq_length attn_type a s")
    case (Inl e1)
    with r assms derive_key_seq_length_Inl[OF Inl] show ?thesis by simp
  next
    case (Inr ksl)
    note v = derive_key_seq_length_Inr[OF Inr]
    show ?thesis
    proof (cases "n = 0")
      case True
      with r assms Inr show ?thesis by auto
    next
      case False
      show ?thesis
      proof (cases "project K n attn_type pre (derive_locals n ksl a s) a s")
        case (Inl x)
        with r assms Inr False have "project K n attn_type pre (derive_locals n ksl a s) a s = Inl (e, s')"
          by simp
        from project_raises[OF this v] show ?thesis by simp
      next
        case (Inr y)
        obtain q k v' s2 where y: "y = ((q, k, v'), s2)" by (cases y) auto
        with r assms \<open>derive_key_seq_length attn_type a s = Inr ksl\<close> False Inr
        have "attend K n post (derive_locals n ksl a s) q k v' a s2 = Inl (e, s')" by simp
        from attend_raises[OF this] show ?thesis by simp
      qed
    qed
  qed
qed

lemma run_invalid_variant:
  assumes "attn_type \<noteq> ''self''" "attn_type \<noteq> ''context''"
  shows "\<exists>e. ComputeAttention K n attn_type pre post a s = Inl (e, s) \<and>
     (if inputs_conform a s then e = (InvalidArgument, attn_type_msg)
      else fst e = ShapeError \<or> fst e = DeviceMismatchError)"
proof (cases "inputs_conform a s")
  case False
  from enforce_inputs_violated[OF False] run_violated[OF False, of K n attn_type pre post]
  show ?thesis using False by auto
next
  case True
  from run_conform[OF True, of K n attn_type pre post] assms True
  show ?thesis by (simp add: derive_key_seq_length_def)
qed


lemma valid_callD:
  assumes "valid_call n attn_type a s"
  shows "is_same_device_ctx (device_ctx (s (key_tensor a))) (device_ctx (s (attention_mask a)))"
    and "n_dim (s (key_tensor a)) = 3" and "n_dim (s (value_tensor a)) = 3" and "n_dim (s (query_tensor a)) = 3"
    and "shape (s (key_tensor a)) 0 = shape (s (value_tensor a)) 0"
    and "0 < shape (s (query_tensor a)) 0" and "0 < shape (s (query_tensor a)) 1"
    and "0 < shape (s (query_tensor a)) 2" and "0 < n" and "n \<noteq> 0"
    and "0 < shape (s (query_tensor a)) 2 sdiv n"
    and "shape (s (query_tensor a)) 2 sdiv n = shape (s (query_tensor a)) 2 div n"
    and "attn_type = ''context'' \<or> attn_type = ''self''"
    and "attn_type = ''context'' \<Longrightarrow> 0 < shape (s (key_tensor a)) 1"
  using assms sdiv_pos_iff[of n "shape (s (query_tensor a)) 2"] sdiv_eq_div[of n "shape (s (query_tensor a)) 2"]
  by (auto simp: valid_call_def inputs_conform_def)


lemma valid_positive_locals:
  assumes "valid_call n attn_type a s"
  shows "positive_locals n (derive_locals n (ksl_of attn_type a s) a s)"
  using valid_callD[OF assms]
  by (auto simp: positive_locals_def derive_locals_def ksl_of_def device_type_def device_id_def)

lemma run_valid:
  assumes "valid_call n attn_type a s"
  shows "ComputeAttention K n attn_type pre post a s =
     (case project K n attn_type pre (derive_locals n (ksl_of attn_type a s) a s) a s of
        Inl x \<Rightarrow> Inl x
      | Inr ((q_ptr, k_ptr, v_ptr), s2) \<Rightarrow>
          attend K n post (derive_locals n (ksl_of attn_type a s) a s) q_ptr k_ptr v_ptr a s2)"
proof -
  from assms have c: "inputs_conform a s" by (simp add: valid_call_def)
  from valid_callD(13)[OF assms]
  have d: "derive_key_seq_length attn_type a s = Inr (ksl_of attn_type a s)"
    by (auto simp: derive_key_seq_length_def ksl_of_def)
  from valid_callD(10)[OF assms] show ?thesis
    by (simp add: run_conform[OF c] d)
qed

lemmas pure_defs = head_major_def separate_projection_def fused_projection_def query_input_def
  layernormed_def

lemma project_context_result:
  assumes "positive_locals n L"
  shows "\<exists>s2. project_context K n pre L a s = Inr s2 \<and>
     (s2 (Temp q_out2_temp (devctx L)), s2 (Temp k_out2_temp (device_ctx (s (key_tensor a)))),
      s2 (Temp v_out2_temp (device_ctx (s (value_tensor a))))) =
       head_major K n ''context'' pre L a s"
  using assms unfolding positive_locals_def project_context_def pure_defs Let_def
  by (cases pre) (simp_all add: stmt_defs)

lemma project_self_result:
  assumes "positive_locals n L"
  shows "\<exists>s2. project_self K n pre L a s = Inr s2 \<and>
     (s2 new_q, s2 new_k, s2 new_v) = head_major K n ''self'' pre L a s"
  using assms unfolding positive_locals_def project_self_def pure_defs Let_def
  by (cases pre) (simp_all add: stmt_defs)

lemma project_result:
  assumes "valid_call n attn_type a s"
  shows "\<exists>q_ptr k_ptr v_ptr s2.
     project K n attn_type pre (derive_locals n (ksl_of attn_type a s) a s) a s =
       Inr ((q_ptr, k_ptr, v_ptr), s2) \<and>
     (s2 q_ptr, s2 k_ptr, s2 v_ptr) =
       head_major K n attn_type pre (derive_locals n (ksl_of attn_type a s) a s) a s \<and>
     \<not> attend_slot q_ptr \<and> \<not> attend_slot k_ptr \<and> \<not> attend_slot v_ptr \<and>
     (\<forall>x. q_ptr \<noteq> Caller x \<and> k_ptr \<noteq> Caller x \<and> v_ptr \<noteq> Caller x) \<and>
     (\<forall>l. \<not> projection_slot l \<longrightarrow> s2 l = s l)"
proof -
  let ?L = "derive_locals n (ksl_of attn_type a s) a s"
  note p = valid_positive_locals[OF assms]
  from valid_callD(13)[OF assms] show ?thesis
  proof
    assume c: "attn_type = ''context''"
    from project_context_result[OF p, of K pre a s] obtain s2
      where s2: "project_context K n pre ?L a s = Inr s2"
        and hm: "(s2 (Temp q_out2_temp (devctx ?L)),
                  s2 (Temp k_out2_temp (device_ctx (s (key_tensor a)))),
                  s2 (Temp v_out2_temp (device_ctx (s (value_tensor a))))) =
                 head_major K n ''context'' pre ?L a s"
      by blast
    have keep: "\<And>l. \<not> projection_slot l \<Longrightarrow> s2 l = s l"
      using project_context_keeps[of _ K n pre ?L a s] s2 by simp
    have "project K n attn_type pre ?L a s =
        Inr ((Temp q_out2_temp (devctx ?L), Temp k_out2_temp (device_ctx (s (key_tensor a))),
              Temp v_out2_temp (device_ctx (s (value_tensor a)))), s2)"
      using s2 c by (simp add: project_def)
    with hm keep c show ?thesis by (auto simp: attend_slot_def)
  next
    assume c: "attn_type = ''self''"
    from project_self_result[OF p, of K pre a s] obtain s2
      where s2: "project_self K n pre ?L a s = Inr s2"
        and hm: "(s2 new_q, s2 new_k, s2 new_v) = head_major K n ''self'' pre ?L a s"
      by blast
    have keep: "\<And>l. \<not> projection_slot l \<Longrightarrow> s2 l = s l"
      using project_self_keeps[of _ K n pre ?L a s] s2 by simp
    have "project K n attn_type pre ?L a s = Inr ((new_q, new_k, new_v), s2)"
      using s2 c by (simp add: project_def)
    with hm keep c show ?thesis by (auto simp: attend_slot_def)
  qed
qed

text \<open>
  Steps 2 to the end on positive dimensions, for pointers into the projection's results:
  the contents of the score tensor, of the context layer, of the unshaped context and of
  the output. When the output is the query object, the residual that \<open>AddInputBias\<close> reads
  is the projection just written.
\<close>

lemma attend_result:
  assumes "positive_locals n L"
    and "\<not> attend_slot q" "\<not> attend_slot k" "\<not> attend_slot v"
    and "\<And>x. q \<noteq> Caller x" "\<And>x. k \<noteq> Caller x" "\<And>x. v \<noteq> Caller x"
  shows "\<exists>s'. attend K n post L q k v a s = Inr s' \<and>
     dims (s' (output_tensor a)) = [batch_size L, query_seq_length L, hidden_size L] \<and>
     device_ctx (s' (output_tensor a)) = devctx L \<and>
     dims (s' (Temp att_score_tmp (devctx L))) =
       [batch_size L, n, query_seq_length L, key_seq_length L] \<and>
     (let att0 = \<lparr>dims = [batch_size L, n, query_seq_length L, key_seq_length L],
                   device_ctx = devctx L, data = data (s (Temp att_score_tmp (devctx L)))\<rparr>;
          score = att0\<lparr>data := BatchMatMul_impl K (s q) False (s k) True
                                  (1 / sqrt (real_of_int (size_per_head L))) att0 0\<rparr>
      in data (s' (Temp att_score_tmp (devctx L))) =
           ApplyMaskAndSoftmax_impl K score (s (attention_mask a)) 1) \<and>
     (let ctx0 = \<lparr>dims = [batch_size L, n, query_seq_length L, size_per_head L],
                   device_ctx = devctx L, data = data (s (Temp context_layer_tmpr (devctx L)))\<rparr>
      in data (s' (Temp context_layer_tmpr (devctx L))) =
           BatchMatMul_impl K (s' (Temp att_score_tmp (devctx L))) False (s v) False 1 ctx0 0) \<and>
     dims (s' (Temp context_layer_tmpr (devctx L))) =
       [batch_size L, n, query_seq_length L, size_per_head L] \<and>
     device_ctx (s' (Temp context_layer_tmpr (devctx L))) = devctx L \<and>
     (let self0 = \<lparr>dims = [batch_size L, query_seq_length L, n * size_per_head L],
                    device_ctx = devctx L, data = data (s (Temp self_attr_out_tmp (devctx L)))\<rparr>
      in s' (Temp self_attr_out_tmp (devctx L)) =
           self0\<lparr>data := TransposeForScore_impl K self0 (s' (Temp context_layer_tmpr (devctx L)))\<rparr>) \<and>
     (let out0 = \<lparr>dims = [batch_size L, query_seq_length L, hidden_size L],
                   device_ctx = devctx L, data = data (s (output_tensor a))\<rparr>;
          projected = out0\<lparr>data := MatMul_impl K (s' (Temp self_attr_out_tmp (devctx L))) False
                                        (s (Member dense_weight)) False 1 out0 0\<rparr>;
          residual = (if query_obj a = output_obj a then projected else s (query_tensor a))
      in data (s' (output_tensor a)) =
           (if post
            then AddInputBias_impl K projected residual (s (Member dense_bias)) projected
            else AddBias_impl K (s (Member dense_bias)) projected))"
  using assms unfolding positive_locals_def attend_def Let_def
  by (simp add: stmt_defs not_attend_slot_neq)

lemma derive_locals_fields:
  "batch_size (derive_locals n ksl a s) = shape (s (query_tensor a)) 0"
  "query_seq_length (derive_locals n ksl a s) = shape (s (query_tensor a)) 1"
  "key_seq_length (derive_locals n ksl a s) = ksl"
  "hidden_size (derive_locals n ksl a s) = shape (s (query_tensor a)) 2"
  "size_per_head (derive_locals n ksl a s) = shape (s (query_tensor a)) 2 sdiv n"
  "devctx (derive_locals n ksl a s) = device_ctx (s (query_tensor a))"
  by (simp_all add: derive_locals_def)

text \<open>What a valid call returns: the facts the claims read off.\<close>

lemma run_result:
  fixes K :: "'d kernel_impl"
  defines "L \<equiv> \<lambda>n attn_type a (s :: 'd store). derive_locals n (ksl_of attn_type a s) a s"
  assumes "valid_call n attn_type a s"
  shows "\<exists>s'. ComputeAttention K n attn_type pre post a s = Inr s' \<and>
     dims (s' (output_tensor a)) =
       [batch_size (L n attn_type a s), query_seq_length (L n attn_type a s),
        hidden_size (L n attn_type a s)] \<and>
     device_ctx (s' (output_tensor a)) = devctx (L n attn_type a s) \<and>
     dims (s' (Temp att_score_tmp (devctx (L n attn_type a s)))) =
       [batch_size (L n attn_type a s), n, query_seq_length (L n attn_type a s),
        key_seq_length (L n attn_type a s)] \<and>
     (let att0 = \<lparr>dims = [batch_size (L n attn_type a s), n, query_seq_length (L n attn_type a s),
                           key_seq_length (L n attn_type a s)],
                   device_ctx = devctx (L n attn_type a s),
                   data = data (s (Temp att_score_tmp (devctx (L n attn_type a s))))\<rparr>;
          score = att0\<lparr>data := BatchMatMul_impl K
                     (fst (head_major K n attn_type pre (L n attn_type a s) a s)) False
                     (fst (snd (head_major K n attn_type pre (L n attn_type a s) a s))) True
                     (1 / sqrt (real_of_int (size_per_head (L n attn_type a s)))) att0 0\<rparr>
      in data (s' (Temp att_score_tmp (devctx (L n attn_type a s)))) =
           ApplyMaskAndSoftmax_impl K score (s (attention_mask a)) 1) \<and>
     (let ctx0 = \<lparr>dims = [batch_size (L n attn_type a s), n, query_seq_length (L n attn_type a s),
                           size_per_head (L n attn_type a s)],
                   device_ctx = devctx (L n attn_type a s),
                   data = data (s (Temp context_layer_tmpr (devctx (L n attn_type a s))))\<rparr>
      in data (s' (Temp context_layer_tmpr (devctx (L n attn_type a s)))) =
           BatchMatMul_impl K (s' (Temp att_score_tmp (devctx (L n attn_type a s)))) False
             (snd (snd (head_major K n attn_type pre (L n attn_type a s) a s))) False 1 ctx0 0) \<and>
     dims (s' (Temp context_layer_tmpr (devctx (L n attn_type a s)))) =
       [batch_size (L n attn_type a s), n, query_seq_length (L n attn_type a s),
        size_per_head (L n attn_type a s)] \<and>
     device_ctx (s' (Temp context_layer_tmpr (devctx (L n attn_type a s)))) =
       devctx (L n attn_type a s) \<and>
     (let self0 = \<lparr>dims = [batch_size (L n attn_type a s), query_seq_length (L n attn_type a s),
                            n * size_per_head (L n attn_type a s)],
                    device_ctx = devctx (L n attn_type a s),
                    data = data (s (Temp self_attr_out_tmp (devctx (L n attn_type a s))))\<rparr>
      in s' (Temp self_attr_out_tmp (devctx (L n attn_type a s))) =
           self0\<lparr>data := TransposeForScore_impl K self0
                             (s' (Temp context_layer_tmpr (devctx (L n attn_type a s))))\<rparr>) \<and>
     (let out0 = \<lparr>dims = [batch_size (L n attn_type a s), query_seq_length (L n attn_type a s),
                           hidden_size (L n attn_type a s)],
                   device_ctx = devctx (L n attn_type a s), data = data (s (output_tensor a))\<rparr>;
          projected = out0\<lparr>data := MatMul_impl K
                         (s' (Temp self_attr_out_tmp (devctx (L n attn_type a s)))) False
                         (s (Member dense_weight)) False 1 out0 0\<rparr>;
          residual = (if query_obj a = output_obj a then projected else s (query_tensor a))
      in data (s' (output_tensor a)) =
           (if post
            then AddInputBias_impl K projected residual (s (Member dense_bias)) projected
            else AddBias_impl K (s (Member dense_bias)) projected))"
proof -
  let ?L = "derive_locals n (ksl_of attn_type a s) a s"
  note p = valid_positive_locals[OF assms(2)]
  from project_result[OF assms(2), of K pre] obtain q k v s2
    where s2: "project K n attn_type pre ?L a s = Inr ((q, k, v), s2)"
      and hm: "(s2 q, s2 k, s2 v) = head_major K n attn_type pre ?L a s"
      and ptr: "\<not> attend_slot q" "\<not> attend_slot k" "\<not> attend_slot v"
      and caller: "\<And>x. q \<noteq> Caller x" "\<And>x. k \<noteq> Caller x" "\<And>x. v \<noteq> Caller x"
      and keep: "\<And>l. \<not> projection_slot l \<Longrightarrow> s2 l = s l"
    by blast
  have run: "ComputeAttention K n attn_type pre post a s = attend K n post ?L q k v a s2"
    by (simp add: run_valid[OF assms(2)] s2)
  have ops: "s2 q = fst (head_major K n attn_type pre ?L a s)"
    "s2 k = fst (snd (head_major K n attn_type pre ?L a s))"
    "s2 v = snd (snd (head_major K n attn_type pre ?L a s))"
    using hm[symmetric] by simp_all
  have same: "s2 (Temp att_score_tmp (devctx ?L)) = s (Temp att_score_tmp (devctx ?L))"
    "s2 (Temp context_layer_tmpr (devctx ?L)) = s (Temp context_layer_tmpr (devctx ?L))"
    "s2 (Temp self_attr_out_tmp (devctx ?L)) = s (Temp self_attr_out_tmp (devctx ?L))"
    "s2 (output_tensor a) = s (output_tensor a)" "s2 (attention_mask a) = s (attention_mask a)"
    "s2 (query_tensor a) = s (query_tensor a)" "s2 (Member dense_weight) = s (Member dense_weight)"
    "s2 (Member dense_bias) = s (Member dense_bias)"
    by (simp_all add: keep projection_slot_def)
  from attend_result[OF p ptr caller, of K post a s2]
  show ?thesis unfolding L_def run same ops Let_def .
qed





lemmas example_defs = example_store_def example_call_def shape_only_def cpu_def valid_call_def
  inputs_conform_def is_same_device_ctx_def n_dim_def shape_def


section \<open>The claims\<close>

text \<open>
  C1. Every valid call (either variant, any \<open>pre_layernorm\<close> and \<open>post_add\<close>, any kernels,
  whichever caller objects the parameters designate) returns, and the caller's output
  tensor then has the shape \<open>[batch, query_seq_len, hidden]\<close> read from the query tensor,
  on the query's device.
\<close>

theorem output_shape:
  assumes "valid_call n attn_type a s"
  shows "\<exists>s'. ComputeAttention K n attn_type pre post a s = Inr s' \<and>
     dims (s' (output_tensor a)) =
       [shape (s (query_tensor a)) 0, shape (s (query_tensor a)) 1,
        shape (s (query_tensor a)) 2] \<and>
     device_ctx (s' (output_tensor a)) = device_ctx (s (query_tensor a))"
  using run_result[OF assms, of K pre post] unfolding derive_locals_fields by blast

theorem output_shape_witness:
  "valid_call 2 ''context'' example_call example_store \<and>
   (\<exists>s'. ComputeAttention shape_only 2 ''context'' True True example_call example_store = Inr s' \<and>
      dims (s' (output_tensor example_call)) = [2, 3, 8] \<and>
      device_ctx (s' (output_tensor example_call)) = (kDLCPU, 0))"
proof -
  have v: "valid_call 2 ''context'' example_call example_store"
    by (simp add: example_defs)
  from output_shape[OF v, of shape_only True True] v show ?thesis
    by (simp add: example_store_def example_call_def shape_def cpu_def)
qed

text \<open>
  C9. In a valid call the last dimension of the score tensor is \<open>key.shape[1]\<close> for the
  variant \<open>context\<close> and \<open>query.shape[1]\<close> for the variant \<open>self\<close>, whatever the key
  tensor's own sequence dimension is.
\<close>

theorem score_key_length:
  assumes "valid_call n attn_type a s"
  shows "\<exists>s'. ComputeAttention K n attn_type pre post a s = Inr s' \<and>
     dims (s' (Temp att_score_tmp (device_ctx (s (query_tensor a))))) =
       [shape (s (query_tensor a)) 0, n, shape (s (query_tensor a)) 1,
        if attn_type = ''context'' then shape (s (key_tensor a)) 1
        else shape (s (query_tensor a)) 1]"
  using run_result[OF assms, of K pre post] unfolding derive_locals_fields ksl_of_def by blast

theorem score_key_length_witness:
  "valid_call 2 ''self'' example_call example_store \<and>
   valid_call 2 ''context'' example_call example_store \<and>
   shape (example_store (key_tensor example_call)) 1 = 5 \<and>
   (\<exists>s'. ComputeAttention shape_only 2 ''self'' False False example_call example_store = Inr s' \<and>
      dims (s' (Temp att_score_tmp (kDLCPU, 0))) = [2, 2, 3, 3]) \<and>
   (\<exists>s'. ComputeAttention shape_only 2 ''context'' False False example_call example_store = Inr s' \<and>
      dims (s' (Temp att_score_tmp (kDLCPU, 0))) = [2, 2, 3, 5])"
proof -
  have v: "valid_call 2 ''self'' example_call example_store"
    and w: "valid_call 2 ''context'' example_call example_store"
    by (simp_all add: example_defs)
  from score_key_length[OF v, of shape_only False False]
    score_key_length[OF w, of shape_only False False] v w
  show ?thesis
    by (simp add: example_store_def example_call_def shape_def cpu_def)
qed

text \<open>
  C2. In a valid call the score tensor is written by one batched matrix multiply of the
  head-major query (not transposed) and the head-major key (transposed), with
  \<open>alpha = 1 / sqrt size_per_head\<close> and \<open>beta = 0\<close>, and the masked softmax then runs on
  it in place with scale 1. The head-major query and key are the first two results of the
  projection stage, \<open>head_major\<close>: for \<open>context\<close> the products of the query (layer
  normalised with \<open>pre_layernorm\<close>) and of the key with their weights, biased and
  transposed; for \<open>self\<close> slices 0 and 1 of the fused product of the query. The scalars are
  real numbers: the rounding of \<open>float\<close> is not modelled.
\<close>

theorem scaled_scores:
  assumes "valid_call n attn_type a s"
  shows "\<exists>s'. ComputeAttention K n attn_type pre post a s = Inr s' \<and>
     (let ctx = device_ctx (s (query_tensor a));
          heads = head_major K n attn_type pre (derive_locals n (ksl_of attn_type a s) a s) a s;
          q = fst heads;
          k = fst (snd heads);
          att0 = \<lparr>dims = [shape (s (query_tensor a)) 0, n, shape (s (query_tensor a)) 1,
                           if attn_type = ''context'' then shape (s (key_tensor a)) 1
                           else shape (s (query_tensor a)) 1],
                   device_ctx = ctx, data = data (s (Temp att_score_tmp ctx))\<rparr>;
          score = att0\<lparr>data := BatchMatMul_impl K q False k True
                     (1 / sqrt (real_of_int (shape (s (query_tensor a)) 2 div n))) att0 0\<rparr>
      in data (s' (Temp att_score_tmp ctx)) =
           ApplyMaskAndSoftmax_impl K score (s (attention_mask a)) 1)"
  using run_result[OF assms, of K pre post]
  unfolding derive_locals_fields valid_callD(12)[OF assms] ksl_of_def Let_def
  by blast

theorem scaled_scores_witness:
  "valid_call 2 ''context'' example_call named_store \<and>
   valid_call 2 ''self'' example_call named_store \<and>
   (\<exists>s'. ComputeAttention recording 2 ''context'' False False example_call named_store = Inr s' \<and>
      data (s' (Temp att_score_tmp (kDLCPU, 0))) =
        ApplyMaskAndSoftmax_of
          (BatchMatMul_of
             (AddBiasTransposeForScore_of
                (MatMul_of (Given ''query'') False (Given ''q_weight'') False 1 0)
                (Given ''q_bias''))
             False
             (AddBiasTransposeForScore_of
                (MatMul_of (Given ''key'') False (Given ''k_weight'') False 1 0)
                (Given ''k_bias''))
             True (1 / 2) 0)
          (Given ''mask'') 1) \<and>
   (\<exists>s'. ComputeAttention recording 2 ''self'' True False example_call named_store = Inr s' \<and>
      data (s' (Temp att_score_tmp (kDLCPU, 0))) =
        ApplyMaskAndSoftmax_of
          (BatchMatMul_of
             (Slice_of
                (SplitAddBiasTransposeForScore_of
                   (MatMul_of
                      (LayerNorm_of (Given ''gamma'') (Given ''beta'') (Given ''query'')
                         (1 / 1000000))
                      False (Given ''qkv_weight'') False 1 0)
                   (Given ''qkv_bias''))
                0)
             False
             (Slice_of
                (SplitAddBiasTransposeForScore_of
                   (MatMul_of
                      (LayerNorm_of (Given ''gamma'') (Given ''beta'') (Given ''query'')
                         (1 / 1000000))
                      False (Given ''qkv_weight'') False 1 0)
                   (Given ''qkv_bias''))
                1)
             True (1 / 2) 0)
          (Given ''mask'') 1)"
proof -
  have v: "valid_call 2 ''context'' example_call named_store"
    and w: "valid_call 2 ''self'' example_call named_store"
    by (simp_all add: named_store_def example_call_def cpu_def valid_call_def inputs_conform_def
        is_same_device_ctx_def n_dim_def shape_def)
  have four: "sqrt 4 = 2"
    using real_sqrt_abs[of 2] by simp
  from scaled_scores[OF v, of recording False False] scaled_scores[OF w, of recording True False]
    v w
  show ?thesis
    by (simp add: named_store_def example_call_def recording_def cpu_def shape_def pure_defs
        derive_locals_def ksl_of_def device_type_def device_id_def subtensor_def Let_def four)
qed




text \<open>
  C5, as amended. A call whose attention type is neither \<open>self\<close> nor \<open>context\<close> throws and
  leaves the whole store, hence the output tensor, as it was. The error is
  \<open>InvalidArgument\<close> when the device, rank and batch checks pass; otherwise it is the
  \<open>ShapeError\<close> or \<open>DeviceMismatchError\<close> of the first of those checks that fails, since
  they come first.
\<close>

theorem invalid_variant_fails:
  assumes "attn_type \<noteq> ''self''" "attn_type \<noteq> ''context''"
  shows "\<exists>e. ComputeAttention K n attn_type pre post a s = Inl (e, s) \<and>
     (if inputs_conform a s then e = (InvalidArgument, attn_type_msg)
      else fst e = ShapeError \<or> fst e = DeviceMismatchError)"
  using assms by (rule run_invalid_variant)

theorem invalid_variant_fails_witness:
  "''cross'' \<noteq> ''self'' \<and> ''cross'' \<noteq> ''context'' \<and> inputs_conform example_call example_store \<and>
   ComputeAttention shape_only 2 ''cross'' False False example_call example_store =
     Inl ((InvalidArgument, attn_type_msg), example_store)"
  using invalid_variant_fails[of "''cross''" shape_only 2 False False example_call example_store]
  by (auto simp: example_defs)

text \<open>
  C5, as stated, fails: with an unknown attention type and the mask on another device
  than the key, the error is the \<open>DeviceMismatchError\<close> of the first check.
\<close>

theorem invalid_variant_counterexample:
  "''cross'' \<noteq> ''self'' \<and> ''cross'' \<noteq> ''context'' \<and>
   ComputeAttention shape_only 2 ''cross'' False False example_call gpu_mask_store
   = Inl ((DeviceMismatchError, device_msg), gpu_mask_store)"
  by (simp add: gpu_mask_store_def gpu_def example_defs ComputeAttention_def enforce_inputs_def
      TT_ENFORCE_EQ_def)

text \<open>
  C6, as amended. A call whose mask is on another device context than the key throws
  \<open>DeviceMismatchError\<close> at the first check, with nothing written. This is the only
  comparison of device contexts the function makes.
\<close>

theorem mask_device_mismatch_rejected:
  assumes "\<not> is_same_device_ctx (device_ctx (s (key_tensor a))) (device_ctx (s (attention_mask a)))"
  shows "ComputeAttention K n attn_type pre post a s = Inl ((DeviceMismatchError, device_msg), s)"
  using assms by (simp add: ComputeAttention_def enforce_inputs_def TT_ENFORCE_EQ_def)

theorem mask_device_mismatch_rejected_witness:
  "\<not> is_same_device_ctx
       (device_ctx (gpu_mask_store (key_tensor example_call)))
       (device_ctx (gpu_mask_store (attention_mask example_call))) \<and>
   ComputeAttention shape_only 2 ''self'' False False example_call gpu_mask_store
   = Inl ((DeviceMismatchError, device_msg), gpu_mask_store)"
proof -
  have m: "\<not> is_same_device_ctx
       (device_ctx (gpu_mask_store (key_tensor example_call)))
       (device_ctx (gpu_mask_store (attention_mask example_call)))"
    by (simp add: gpu_mask_store_def gpu_def example_defs)
  show ?thesis
    by (rule conjI[OF m mask_device_mismatch_rejected[OF m]])
qed

text \<open>
  C6, as stated, fails: in the variant \<open>self\<close> the value tensor is on another device
  context than the key, the query and the mask, and the call returns with the output
  written.
\<close>

theorem unchecked_device_counterexample:
  "\<not> is_same_device_ctx
       (device_ctx (gpu_value_store (value_tensor example_call)))
       (device_ctx (gpu_value_store (key_tensor example_call))) \<and>
   \<not> isl (ComputeAttention shape_only 2 ''self'' False False example_call gpu_value_store) \<and>
   dims (final_store (ComputeAttention shape_only 2 ''self'' False False example_call
       gpu_value_store)
     (output_tensor example_call)) = [2, 3, 8]"
  by (simp add: gpu_value_store_def gpu_def example_defs run_defs)




text \<open>
  C10. The \<open>TT_THROW\<close> of the second dispatch is never the outcome of a call, and a call
  whose attention type is neither \<open>context\<close> nor \<open>self\<close> throws no later than at the
  first dispatch (the error is that of the first dispatch or of one of the checks before
  it), with the store, arena included, untouched.
\<close>

theorem not_support_unreachable:
  "(\<forall>s'. ComputeAttention K n attn_type pre post a s
           \<noteq> Inl ((InvalidArgument, not_support_msg attn_type), s')) \<and>
   (attn_type \<noteq> ''context'' \<and> attn_type \<noteq> ''self'' \<longrightarrow>
      (\<exists>e. ComputeAttention K n attn_type pre post a s = Inl (e, s) \<and>
           (e = (InvalidArgument, attn_type_msg) \<or> fst e = ShapeError \<or>
            fst e = DeviceMismatchError)))"
proof (intro conjI allI impI)
  fix s'
  show "ComputeAttention K n attn_type pre post a s
           \<noteq> Inl ((InvalidArgument, not_support_msg attn_type), s')"
    using run_raises[of K n attn_type pre post a s "(InvalidArgument, not_support_msg attn_type)" s']
      msg_neq[of attn_type]
    by auto
next
  assume "attn_type \<noteq> ''context'' \<and> attn_type \<noteq> ''self''"
  then show "\<exists>e. ComputeAttention K n attn_type pre post a s = Inl (e, s) \<and>
           (e = (InvalidArgument, attn_type_msg) \<or> fst e = ShapeError \<or>
            fst e = DeviceMismatchError)"
    using run_invalid_variant[of attn_type K n pre post a s] by (cases "inputs_conform a s") auto
qed

theorem not_support_unreachable_witness:
  "ComputeAttention shape_only 2 ''cross'' False False example_call example_store
     \<noteq> Inl ((InvalidArgument, not_support_msg ''cross''), example_store) \<and>
   ''cross'' \<noteq> ''context'' \<and> ''cross'' \<noteq> ''self'' \<and>
   (\<exists>e. ComputeAttention shape_only 2 ''cross'' False False example_call example_store =
          Inl (e, example_store) \<and>
        (e = (InvalidArgument, attn_type_msg) \<or> fst e = ShapeError \<or>
         fst e = DeviceMismatchError))"
  using not_support_unreachable[of shape_only 2 "''cross''" False False example_call example_store]
  by simp

text \<open>
  C4. The check whose message is "should have the same hidden_size" compares
  \<open>shape(0)\<close>, the batch dimension. With hidden sizes 8 and 16 and equal batch sizes the
  call returns; with equal hidden sizes and batch sizes 2 and 3 it throws.
\<close>

theorem hidden_size_check_compares_batch:
  "shape (wide_value_store (key_tensor example_call)) 2 = 8 \<and>
   shape (wide_value_store (value_tensor example_call)) 2 = 16 \<and>
   \<not> isl (ComputeAttention shape_only 2 ''self'' False False example_call wide_value_store) \<and>
   ComputeAttention shape_only 2 ''self'' False False example_call batch3_value_store
     = Inl ((ShapeError, hidden_size_msg), batch3_value_store)"
  by (simp add: wide_value_store_def batch3_value_store_def example_defs run_defs)

section \<open>The two variants on the same input\<close>











end
